theory Spec2Isabelle
  imports Main "HOL-Library.AList"
begin

section \<open>Strings and numbers as Go prints them\<close>

text \<open>
  Go strings are byte sequences; they are modelled as \<open>string\<close> (a list of
  \<open>char\<close>, one per byte).  \<open>strings.HasPrefix\<close> and \<open>strings.TrimPrefix\<close>
  are written out on lists.
\<close>

definition HasPrefix :: "string \<Rightarrow> string \<Rightarrow> bool" where
  "HasPrefix s p = (take (length p) s = p)"

definition TrimPrefix :: "string \<Rightarrow> string \<Rightarrow> string" where
  "TrimPrefix s p = (if HasPrefix s p then drop (length p) s else s)"

text \<open>
  \<open>strings.SplitN(key, ":", 2)\<close>: at most two pieces, split at the first colon.
\<close>

definition SplitN_colon_2 :: "string \<Rightarrow> string list" where
  "SplitN_colon_2 s =
     (if CHR '':'' \<in> set s
      then [takeWhile (\<lambda>c. c \<noteq> CHR '':'') s, tl (dropWhile (\<lambda>c. c \<noteq> CHR '':'') s)]
      else [s])"

text \<open>Decimal text of a non-negative number, as \<open>%d\<close> prints it.\<close>

definition digits :: string where
  "digits = ''0123456789abcdef''"

fun decimal :: "nat \<Rightarrow> string" where
  "decimal n = (if n < 10 then [digits ! n] else decimal (n div 10) @ [digits ! (n mod 10)])"

declare decimal.simps [simp del]

section \<open>The Go standard library's \<open>net/netip\<close> address type\<close>

text \<open>
  \<open>toLibdnsRecord\<close> parses A and AAAA values with \<open>netip.ParseAddr\<close> and
  \<open>extractValue\<close> prints them with \<open>Addr.String\<close>.  Both belong to the Go
  standard library, not to this repository; they are transcribed here from
  \<open>net/netip/netip.go\<close>.  An address is the zero \<open>Addr\<close>, four bytes of IPv4, or
  sixteen bytes of IPv6 with a zone (the empty string when there is none).  Bytes
  are natural numbers; the parser only produces values below 256.
\<close>

datatype Addr =
    AddrZero
  | Addr4 "nat list"
  | Addr6 "nat list" string

definition Is6 :: "Addr \<Rightarrow> bool" where
  "Is6 ip = (case ip of Addr6 bs z \<Rightarrow> True | _ \<Rightarrow> False)"

definition v6u16 :: "nat list \<Rightarrow> nat \<Rightarrow> nat" where
  "v6u16 bs i = bs ! (2 * i) * 256 + bs ! (2 * i + 1)"

definition Is4In6 :: "Addr \<Rightarrow> bool" where
  "Is4In6 ip = (case ip of
      Addr6 bs z \<Rightarrow> take 10 bs = replicate 10 0 \<and> bs ! 10 = 255 \<and> bs ! 11 = 255
    | _ \<Rightarrow> False)"

subsection \<open>Printing\<close>

text \<open>\<open>appendDecimal\<close>: a byte in decimal, without leading zeros.\<close>

definition appendDecimal :: "nat \<Rightarrow> string" where
  "appendDecimal x =
     (if x \<ge> 100 then [digits ! (x div 100)] else []) @
     (if x \<ge> 10 then [digits ! (x div 10 mod 10)] else []) @
     [digits ! (x mod 10)]"

definition appendTo4 :: "nat list \<Rightarrow> string" where
  "appendTo4 bs =
     appendDecimal (bs ! 0) @ ''.'' @ appendDecimal (bs ! 1) @ ''.'' @
     appendDecimal (bs ! 2) @ ''.'' @ appendDecimal (bs ! 3)"

text \<open>\<open>appendHex\<close>: lower-case hexadecimal without leading zeros.\<close>

definition appendHex :: "nat \<Rightarrow> string" where
  "appendHex x =
     (if x \<ge> 4096 then [digits ! (x div 4096)] else []) @
     (if x \<ge> 256 then [digits ! (x div 256 mod 16)] else []) @
     (if x \<ge> 16 then [digits ! (x div 16 mod 16)] else []) @
     [digits ! (x mod 16)]"

text \<open>
  The first loop of \<open>appendTo6\<close> finds the longest run of at least two zero
  groups, the first one among runs of equal length; \<open>(255, 255)\<close> stands for
  "none".  \<open>zeroEndFrom bs j\<close> is its inner loop
  \<open>for j < 8 && ip.v6u16(j) == 0 { j++ }\<close>.
\<close>

function zeroEndFrom :: "nat list \<Rightarrow> nat \<Rightarrow> nat" where
  "zeroEndFrom bs j = (if j < 8 \<and> v6u16 bs j = 0 then zeroEndFrom bs (j + 1) else j)"
  by pat_completeness auto
termination
  by (relation "measure (\<lambda>(bs, j). 8 - j)") auto

declare zeroEndFrom.simps [simp del]

definition zeroStep :: "nat list \<Rightarrow> nat \<Rightarrow> nat \<times> nat \<Rightarrow> nat \<times> nat" where
  "zeroStep bs i ze =
     (if zeroEndFrom bs i - i \<ge> 2 \<and> zeroEndFrom bs i - i > snd ze - fst ze
      then (i, zeroEndFrom bs i) else ze)"

fun zeroRun :: "nat list \<Rightarrow> nat list \<Rightarrow> nat \<times> nat \<Rightarrow> nat \<times> nat" where
  "zeroRun bs [] ze = ze"
| "zeroRun bs (i # is) ze = zeroRun bs is (zeroStep bs i ze)"

text \<open>
  The second loop prints the groups.  At \<open>i = zeroStart\<close> it prints \<open>::\<close> and
  jumps to \<open>zeroEnd\<close>.  The run found by the first loop always has
  \<open>zeroStart < zeroEnd\<close>; the test \<open>zeroEnd < i\<close> only makes the function total on
  the other pairs, which the loop never sees.
\<close>

function groups6 :: "nat list \<Rightarrow> nat \<Rightarrow> nat \<Rightarrow> nat \<Rightarrow> string" where
  "groups6 bs zeroStart zeroEnd i =
     (if \<not> i < 8 then []
      else if i = zeroStart then
        (if zeroEnd \<ge> 8 \<or> zeroEnd < i then ''::''
         else ''::'' @ appendHex (v6u16 bs zeroEnd) @ groups6 bs zeroStart zeroEnd (zeroEnd + 1))
      else (if i > 0 then '':'' else []) @ appendHex (v6u16 bs i)
           @ groups6 bs zeroStart zeroEnd (i + 1))"
  by pat_completeness auto
termination
  by (relation "measure (\<lambda>(bs, zs, ze, i). 8 - i)") auto

declare groups6.simps [simp del]

definition appendTo6 :: "nat list \<Rightarrow> string \<Rightarrow> string" where
  "appendTo6 bs zone =
     (let ze = zeroRun bs [0, 1, 2, 3, 4, 5, 6, 7] (255, 255)
      in groups6 bs (fst ze) (snd ze) 0 @ (if zone \<noteq> [] then ''%'' @ zone else []))"

definition appendTo4In6 :: "nat list \<Rightarrow> string \<Rightarrow> string" where
  "appendTo4In6 bs zone =
     ''::ffff:'' @ appendTo4 (drop 12 bs) @ (if zone \<noteq> [] then ''%'' @ zone else [])"

definition String :: "Addr \<Rightarrow> string" where
  "String ip = (case ip of
      AddrZero \<Rightarrow> ''invalid IP''
    | Addr4 bs \<Rightarrow> appendTo4 bs
    | Addr6 bs zone \<Rightarrow> if Is4In6 ip then appendTo4In6 bs zone else appendTo6 bs zone)"

subsection \<open>Parsing\<close>

text \<open>
  The value of a decimal digit (\<open>'0' <= c && c <= '9'\<close>) and of a hexadecimal
  digit in either case, as tables.
\<close>

definition decVal :: "char \<Rightarrow> nat option" where
  "decVal = map_of
     [(CHR ''0'', 0), (CHR ''1'', 1), (CHR ''2'', 2), (CHR ''3'', 3), (CHR ''4'', 4),
      (CHR ''5'', 5), (CHR ''6'', 6), (CHR ''7'', 7), (CHR ''8'', 8), (CHR ''9'', 9)]"

definition hexVal :: "char \<Rightarrow> nat option" where
  "hexVal = map_of
     [(CHR ''0'', 0), (CHR ''1'', 1), (CHR ''2'', 2), (CHR ''3'', 3), (CHR ''4'', 4),
      (CHR ''5'', 5), (CHR ''6'', 6), (CHR ''7'', 7), (CHR ''8'', 8), (CHR ''9'', 9),
      (CHR ''a'', 10), (CHR ''b'', 11), (CHR ''c'', 12), (CHR ''d'', 13), (CHR ''e'', 14),
      (CHR ''f'', 15),
      (CHR ''A'', 10), (CHR ''B'', 11), (CHR ''C'', 12), (CHR ''D'', 13), (CHR ''E'', 14),
      (CHR ''F'', 15)]"

text \<open>
  \<open>parseIPv4Fields\<close>: the loop over the characters of a dotted quad.  \<open>prev\<close>
  is the character before the current one (\<open>None\<close> at the start); \<open>None\<close> as a
  result is a parse error.  No octet may have a leading zero or exceed 255, and
  there are exactly four of them.
\<close>

fun parseIPv4Fields :: "string \<Rightarrow> nat \<Rightarrow> nat \<Rightarrow> nat \<Rightarrow> nat list \<Rightarrow> char option \<Rightarrow> nat list option" where
  "parseIPv4Fields [] val pos digLen fields prev =
     (if pos < 3 then None else Some (fields[3 := val]))"
| "parseIPv4Fields (c # cs) val pos digLen fields prev =
     (case decVal c of
        Some d \<Rightarrow>
          if digLen = 1 \<and> val = 0 then None
          else if val * 10 + d > 255 then None
          else parseIPv4Fields cs (val * 10 + d) pos (digLen + 1) fields (Some c)
      | None \<Rightarrow>
          if c = CHR ''.'' then
            (if prev = None \<or> cs = [] \<or> prev = Some (CHR ''.'') then None
             else if pos = 3 then None
             else parseIPv4Fields cs 0 (pos + 1) 0 (fields[pos := val]) (Some c))
          else None)"

definition parseIPv4 :: "string \<Rightarrow> Addr option" where
  "parseIPv4 s = map_option Addr4 (parseIPv4Fields s 0 0 0 [0, 0, 0, 0] None)"

text \<open>
  The hexadecimal group at the head of the rest of an IPv6 literal: the number of
  digits read and their value, or \<open>None\<close> when there are more than four digits.
\<close>

fun hexGroup :: "string \<Rightarrow> nat \<Rightarrow> nat \<Rightarrow> (nat \<times> nat) option" where
  "hexGroup [] off acc = Some (off, acc)"
| "hexGroup (c # cs) off acc =
     (case hexVal c of
        None \<Rightarrow> Some (off, acc)
      | Some d \<Rightarrow>
          if off > 3 then None
          else if acc * 16 + d > 65535 then None
          else hexGroup cs (off + 1) (acc * 16 + d))"

text \<open>
  One iteration of the main loop of \<open>parseIPv6\<close>, at byte offset \<open>i\<close> of the
  address \<open>ip\<close>, with \<open>s\<close> the text still to read and \<open>ellipsis\<close> the byte
  offset of \<open>::\<close> (\<open>None\<close> for Go's \<open>-1\<close>).  The iteration fails, leaves the
  loop, or goes on.
\<close>

datatype v6step = V6Error | V6Break string nat "nat list" "nat option"
  | V6Next string nat "nat list" "nat option"

definition parseIPv6Step :: "string \<Rightarrow> nat \<Rightarrow> nat list \<Rightarrow> nat option \<Rightarrow> v6step" where
  "parseIPv6Step s i ip ellipsis =
     (case hexGroup s 0 0 of
        None \<Rightarrow> V6Error
      | Some (off, acc) \<Rightarrow>
          if off = 0 then V6Error
          else if off < length s \<and> s ! off = CHR ''.'' then
            (if ellipsis = None \<and> i \<noteq> 12 then V6Error
             else if i + 4 > 16 then V6Error
             else case parseIPv4Fields s 0 0 0 [0, 0, 0, 0] None of
                    None \<Rightarrow> V6Error
                  | Some f \<Rightarrow> V6Break [] (i + 4)
                      (ip[i := f ! 0, i + 1 := f ! 1, i + 2 := f ! 2, i + 3 := f ! 3]) ellipsis)
          else
            (let ip' = ip[i := acc div 256, i + 1 := acc mod 256];
                 s' = drop off s
             in if s' = [] then V6Break s' (i + 2) ip' ellipsis
                else if hd s' \<noteq> CHR '':'' then V6Error
                else if length s' = 1 then V6Error
                else if hd (tl s') = CHR '':'' then
                  (if ellipsis \<noteq> None then V6Error
                   else if tl (tl s') = [] then V6Break [] (i + 2) ip' (Some (i + 2))
                   else V6Next (tl (tl s')) (i + 2) ip' (Some (i + 2)))
                else V6Next (tl s') (i + 2) ip' ellipsis))"

lemma parseIPv6Step_Next:
  "parseIPv6Step s i ip e = V6Next s' i' ip' e' \<Longrightarrow> i' = i + 2"
  by (auto simp: parseIPv6Step_def Let_def split: option.splits prod.splits if_splits)

function parseIPv6Loop :: "string \<Rightarrow> nat \<Rightarrow> nat list \<Rightarrow> nat option \<Rightarrow> v6step" where
  "parseIPv6Loop s i ip ellipsis =
     (if \<not> i < 16 then V6Break s i ip ellipsis
      else case parseIPv6Step s i ip ellipsis of
             V6Next s' i' ip' e' \<Rightarrow> parseIPv6Loop s' i' ip' e'
           | r \<Rightarrow> r)"
  by pat_completeness auto
termination
  by (relation "measure (\<lambda>(s, i, ip, e). 16 - i)") (auto dest: parseIPv6Step_Next)

declare parseIPv6Loop.simps [simp del]

text \<open>
  After the loop: the whole text must be used; a short address needs a \<open>::\<close>,
  which is expanded by moving the bytes after it to the end and clearing the gap;
  a full address must not have one.
\<close>

definition parseIPv6Finish :: "v6step \<Rightarrow> string \<Rightarrow> Addr option" where
  "parseIPv6Finish r zone =
     (case r of
        V6Break s i ip ellipsis \<Rightarrow>
          if s \<noteq> [] then None
          else if i < 16 then
            (case ellipsis of
               None \<Rightarrow> None
             | Some e \<Rightarrow> Some (Addr6 (take e ip @ replicate (16 - i) 0 @ take (i - e) (drop e ip)) zone))
          else if ellipsis \<noteq> None then None
          else Some (Addr6 ip zone)
      | _ \<Rightarrow> None)"

definition parseIPv6 :: "string \<Rightarrow> Addr option" where
  "parseIPv6 inp =
     (let s = takeWhile (\<lambda>c. c \<noteq> CHR ''%'') inp;
          zone = (if CHR ''%'' \<in> set inp then tl (dropWhile (\<lambda>c. c \<noteq> CHR ''%'') inp) else [])
      in if CHR ''%'' \<in> set inp \<and> zone = [] then None
         else if take 2 s = ''::'' then
           (if drop 2 s = [] then Some (Addr6 (replicate 16 0) zone)
            else parseIPv6Finish (parseIPv6Loop (drop 2 s) 0 (replicate 16 0) (Some 0)) zone)
         else parseIPv6Finish (parseIPv6Loop s 0 (replicate 16 0) None) zone)"

text \<open>
  \<open>ParseAddr\<close>: the first dot, colon or percent sign decides between IPv4, IPv6
  and an error.
\<close>

fun ParseAddrScan :: "string \<Rightarrow> string \<Rightarrow> Addr option" where
  "ParseAddrScan inp [] = None"
| "ParseAddrScan inp (c # cs) =
     (if c = CHR ''.'' then parseIPv4 inp
      else if c = CHR '':'' then parseIPv6 inp
      else if c = CHR ''%'' then None
      else ParseAddrScan inp cs)"

definition ParseAddr :: "string \<Rightarrow> Addr option" where
  "ParseAddr s = ParseAddrScan s s"

section \<open>Records of the app and of libdns\<close>

text \<open>
  \<open>Record\<close> of \<open>app.go\<close>: a declared DNS record.  \<open>TTL\<close> is a Go \<open>int\<close>
  (seconds), which may be negative.
\<close>

record Record =
  Name :: string
  Type :: string
  Value :: string
  TTL :: int

text \<open>
  \<open>App\<close> of \<open>app.go\<close>; only \<open>OwnerID\<close> is read by the functions below (the
  logger, the context and the domain list are runtime plumbing).
\<close>

record App =
  OwnerID :: string

text \<open>
  \<open>time.Duration\<close> is a signed 64-bit count of nanoseconds; \<open>Second\<close> is
  \<open>time.Second\<close>.
\<close>

definition Second :: int where
  "Second = 1000000000"

text \<open>
  The record types of the libdns library that \<open>app.go\<close> constructs or
  inspects.  \<open>libdns.RR\<close> is the generic record; every other libdns record type
  is seen by this code only through its \<open>RR()\<close> method and is therefore
  represented by the \<open>RR\<close> it converts to.  Each constructor takes the name first
  and the TTL (a duration) second.
\<close>

datatype libdns_Record =
    Address string int Addr
  | TXT string int string
  | CNAME string int string
  | MX string int nat string
  | NS string int string
  | RR string int string string

record RR_struct =
  rr_Name :: string
  rr_TTL :: int
  rr_Type :: string
  rr_Data :: string

text \<open>The \<open>RR()\<close> method of each libdns record type.\<close>

fun RR_of :: "libdns_Record \<Rightarrow> RR_struct" where
  "RR_of (Address n t ip) =
     \<lparr>rr_Name = n, rr_TTL = t, rr_Type = (if Is6 ip then ''AAAA'' else ''A''), rr_Data = String ip\<rparr>"
| "RR_of (TXT n t txt) = \<lparr>rr_Name = n, rr_TTL = t, rr_Type = ''TXT'', rr_Data = txt\<rparr>"
| "RR_of (CNAME n t target) = \<lparr>rr_Name = n, rr_TTL = t, rr_Type = ''CNAME'', rr_Data = target\<rparr>"
| "RR_of (MX n t pref target) =
     \<lparr>rr_Name = n, rr_TTL = t, rr_Type = ''MX'', rr_Data = decimal pref @ '' '' @ target\<rparr>"
| "RR_of (NS n t target) = \<lparr>rr_Name = n, rr_TTL = t, rr_Type = ''NS'', rr_Data = target\<rparr>"
| "RR_of (RR n t ty d) = \<lparr>rr_Name = n, rr_TTL = t, rr_Type = ty, rr_Data = d\<rparr>"

section \<open>Ownership markers\<close>

definition txtPrefix :: string where
  "txtPrefix = ''_cdr.''"

definition txtHeritage :: string where
  "txtHeritage = ''caddy-dns-register''"

text \<open>
  \<open>fmt.Sprintf("owner=%s,heritage=%s", a.OwnerID, txtHeritage)\<close>, the payload both
  \<open>makeTXTMarker\<close> and \<open>parseOwnedRecords\<close> compute.
\<close>

definition expectedValue :: "App \<Rightarrow> string" where
  "expectedValue a = ''owner='' @ OwnerID a @ '',heritage='' @ txtHeritage"

definition makeTXTMarker :: "App \<Rightarrow> string \<Rightarrow> libdns_Record" where
  "makeTXTMarker a name = TXT (txtPrefix @ name) (300 * Second) (expectedValue a)"

section \<open>The record codec\<close>

text \<open>
  \<open>toLibdnsRecord\<close>.  \<open>time.Duration(rec.TTL) * time.Second\<close> is a 64-bit
  multiplication, which wraps around; a zero product is replaced by 300 seconds.
\<close>

definition codecTTL :: "Record \<Rightarrow> int" where
  "codecTTL rec =
     (let ttl = signed_take_bit 63 (TTL rec * Second)
      in if ttl = 0 then 300 * Second else ttl)"

definition toLibdnsRecord :: "Record \<Rightarrow> libdns_Record" where
  "toLibdnsRecord rec =
     (if Type rec = ''A'' \<or> Type rec = ''AAAA'' then
        (case ParseAddr (Value rec) of
           None \<Rightarrow> RR (Name rec) (codecTTL rec) (Type rec) (Value rec)
         | Some ip \<Rightarrow> Address (Name rec) (codecTTL rec) ip)
      else if Type rec = ''TXT'' then TXT (Name rec) (codecTTL rec) (Value rec)
      else if Type rec = ''CNAME'' then CNAME (Name rec) (codecTTL rec) (Value rec)
      else RR (Name rec) (codecTTL rec) (Type rec) (Value rec))"

text \<open>\<open>extractValue\<close>: a type switch on the libdns record.\<close>

fun extractValue :: "libdns_Record \<Rightarrow> string" where
  "extractValue (Address n t ip) = String ip"
| "extractValue (TXT n t txt) = txt"
| "extractValue (CNAME n t target) = target"
| "extractValue (MX n t pref target) = decimal pref @ '' '' @ target"
| "extractValue (NS n t target) = target"
| "extractValue (RR n t ty d) = rr_Data (RR_of (RR n t ty d))"

section \<open>Ownership classification\<close>

text \<open>
  Go maps are association lists with one entry per key: \<open>m[k] = v\<close> is
  \<open>AList.update k v m\<close>, a lookup is \<open>map_of m k\<close>, and \<open>range\<close> visits the
  entries in list order.  Go leaves the iteration order unspecified; the statements
  below about plans are about membership and about sequences taken from the plan
  itself.
\<close>

type_synonym 'v gomap = "(string \<times> 'v) list"

text \<open>The key under which a record is indexed: \<open>Name + ":" + Type\<close>.\<close>

definition recordKey :: "string \<Rightarrow> string \<Rightarrow> string" where
  "recordKey name ty = name @ '':'' @ ty"

text \<open>
  \<open>int(rr.TTL.Seconds())\<close>.  \<open>Seconds\<close> returns a \<open>float64\<close>, which is then
  truncated; for a duration that is a whole number of seconds the result is exactly
  the quotient by \<open>time.Second\<close>.  The model is that quotient, rounded towards
  zero.
\<close>

definition SecondsInt :: "int \<Rightarrow> int" where
  "SecondsInt d = (if d < 0 then - ((- d) div Second) else d div Second)"

text \<open>
  First pass of \<open>parseOwnedRecords\<close>: the set \<open>markers\<close> of names claimed by a
  TXT record with the prefix and the expected payload, bare or in double quotes.
\<close>

definition isOurMarker :: "App \<Rightarrow> libdns_Record \<Rightarrow> bool" where
  "isOurMarker a rec =
     (rr_Type (RR_of rec) = ''TXT'' \<and> HasPrefix (rr_Name (RR_of rec)) txtPrefix
      \<and> (rr_Data (RR_of rec) = expectedValue a
           \<or> rr_Data (RR_of rec) = ''\"'' @ expectedValue a @ ''\"''))"

fun findMarkers :: "App \<Rightarrow> libdns_Record list \<Rightarrow> string list \<Rightarrow> string list" where
  "findMarkers a [] markers = markers"
| "findMarkers a (rec # records) markers =
     (if rr_Type (RR_of rec) \<noteq> ''TXT'' \<or> \<not> HasPrefix (rr_Name (RR_of rec)) txtPrefix
      then findMarkers a records markers
      else if rr_Data (RR_of rec) = expectedValue a
              \<or> rr_Data (RR_of rec) = ''\"'' @ expectedValue a @ ''\"''
      then findMarkers a records (List.insert (TrimPrefix (rr_Name (RR_of rec)) txtPrefix) markers)
      else findMarkers a records markers)"

text \<open>Second pass: the records at claimed names, markers themselves skipped.\<close>

fun collectOwned :: "string list \<Rightarrow> libdns_Record list \<Rightarrow> Record gomap \<Rightarrow> Record gomap" where
  "collectOwned markers [] owned = owned"
| "collectOwned markers (rec # records) owned =
     (if HasPrefix (rr_Name (RR_of rec)) txtPrefix then collectOwned markers records owned
      else if rr_Name (RR_of rec) \<in> set markers then
        collectOwned markers records
          (AList.update (recordKey (rr_Name (RR_of rec)) (rr_Type (RR_of rec)))
             \<lparr>Name = rr_Name (RR_of rec), Type = rr_Type (RR_of rec),
              Value = extractValue rec, TTL = SecondsInt (rr_TTL (RR_of rec))\<rparr> owned)
      else collectOwned markers records owned)"

definition parseOwnedRecords :: "App \<Rightarrow> libdns_Record list \<Rightarrow> Record gomap" where
  "parseOwnedRecords a records = collectOwned (findMarkers a records []) records []"

section \<open>The diff\<close>

text \<open>
  The plan computed in \<open>reconcileDomain\<close> (lines 147 to 175 of \<open>app.go\<close>):
  the index of the declared records, then the three lists.
\<close>

fun buildDesired :: "Record list \<Rightarrow> Record gomap \<Rightarrow> Record gomap" where
  "buildDesired [] desired = desired"
| "buildDesired (rec # recs) desired =
     buildDesired recs (AList.update (recordKey (Name rec) (Type rec)) rec desired)"

definition toDeleteOf :: "Record gomap \<Rightarrow> Record gomap \<Rightarrow> string list" where
  "toDeleteOf owned desired = filter (\<lambda>key. map_of desired key = None) (map fst owned)"

definition needsUpdate :: "Record \<Rightarrow> Record \<Rightarrow> bool" where
  "needsUpdate existingRec rec =
     (Value existingRec \<noteq> Value rec \<or> (TTL rec > 0 \<and> TTL existingRec \<noteq> TTL rec))"

definition toCreateOf :: "Record gomap \<Rightarrow> Record gomap \<Rightarrow> Record list" where
  "toCreateOf owned desired =
     map snd (filter (\<lambda>(key, rec). map_of owned key = None) desired)"

definition toUpdateOf :: "Record gomap \<Rightarrow> Record gomap \<Rightarrow> Record list" where
  "toUpdateOf owned desired =
     map snd (filter (\<lambda>(key, rec).
        case map_of owned key of None \<Rightarrow> False | Some existingRec \<Rightarrow> needsUpdate existingRec rec)
      desired)"

record Plan =
  toCreate :: "Record list"
  toUpdate :: "Record list"
  toDelete :: "string list"

definition diff :: "Record gomap \<Rightarrow> Record list \<Rightarrow> Plan" where
  "diff owned declared =
     (let desired = buildDesired declared []
      in \<lparr>toCreate = toCreateOf owned desired,
          toUpdate = toUpdateOf owned desired,
          toDelete = toDeleteOf owned desired\<rparr>)"

section \<open>The wire format of markers\<close>

text \<open>
  C9.  For every record name and owner id, the marker that \<open>makeTXTMarker\<close>
  builds is a libdns TXT record whose name is \<open>_cdr.\<close> followed by the record
  name, whose type is TXT, whose text is \<open>owner=\<close>, the owner id and
  \<open>,heritage=caddy-dns-register\<close>, and whose TTL is 300 seconds.
\<close>

theorem makeTXTMarker_wire_format:
  "makeTXTMarker a name =
     TXT (''_cdr.'' @ name) (300 * 1000000000)
         (''owner='' @ OwnerID a @ '',heritage=caddy-dns-register'')
   \<and> rr_Name (RR_of (makeTXTMarker a name)) = ''_cdr.'' @ name
   \<and> rr_Type (RR_of (makeTXTMarker a name)) = ''TXT''
   \<and> rr_Data (RR_of (makeTXTMarker a name)) = ''owner='' @ OwnerID a @ '',heritage=caddy-dns-register''
   \<and> rr_TTL (RR_of (makeTXTMarker a name)) = 300 * Second"
  by (simp add: makeTXTMarker_def expectedValue_def txtPrefix_def txtHeritage_def Second_def)

end
